theory Spec2Isabelle
  imports Main "HOL-Library.Sublist" "HOL-Library.Char_ord" "HOL-Library.List_Lexorder"
begin

section \<open>giddyup: reading, incrementing and rewriting a version constant\<close>

text \<open>
  A shallow embedding of \<^verbatim>\<open>main.go\<close> of giddyup. Go strings are byte sequences and
  are modelled as \<^typ>\<open>string\<close>; a Go \<^verbatim>\<open>error\<close> value is identified with its message;
  a function returning \<^verbatim>\<open>(string, error)\<close> returns \<open>Inl err\<close> where the source returns
  \<^verbatim>\<open>"", err\<close> and \<open>Inr s\<close> where it returns \<^verbatim>\<open>s, nil\<close>.
\<close>

subsection \<open>Errors, characters and number formatting\<close>

datatype error = Error string

definition newline :: char where
  "newline = CHR 0x0A"

definition tab :: char where
  "tab = CHR 0x09"

definition dquote :: char where
  "dquote = CHR 0x22"

text \<open>The class \<^verbatim>\<open>\d\<close> of Go's regexp package: the ASCII digits \<^verbatim>\<open>0\<close> to \<^verbatim>\<open>9\<close> only.\<close>

definition isDigit :: "char \<Rightarrow> bool" where
  "isDigit c = (48 \<le> (of_char c :: nat) \<and> (of_char c :: nat) \<le> 57)"

text \<open>
  Go's \<^verbatim>\<open>int\<close> on a 64-bit platform: \<open>wrap64\<close> is the two's complement wrap-around
  of an arithmetic result.
\<close>

definition wrap64 :: "int \<Rightarrow> int" where
  "wrap64 x = (x + 2 ^ 63) mod 2 ^ 64 - 2 ^ 63"

text \<open>The value of a run of decimal digits, most significant first.\<close>

fun digitsVal :: "int \<Rightarrow> string \<Rightarrow> int" where
  "digitsVal n [] = n"
| "digitsVal n (ch # s) = digitsVal (n * 10 + (int (of_char ch) - 48)) s"

text \<open>
  \<^verbatim>\<open>strconv.Atoi\<close>: an optional sign, then one or more decimal digits; a syntax error
  otherwise, a range error when the value does not fit \<^verbatim>\<open>int\<close>.
\<close>

definition Atoi :: "string \<Rightarrow> error + int" where
  "Atoi s =
     (let syntaxError = Error (''strconv.Atoi: parsing '' @ [dquote] @ s @ [dquote] @ '': invalid syntax'');
          rangeError = Error (''strconv.Atoi: parsing '' @ [dquote] @ s @ [dquote] @ '': value out of range'');
          neg = (s \<noteq> [] \<and> hd s = CHR ''-'');
          ds = (if s \<noteq> [] \<and> (hd s = CHR ''-'' \<or> hd s = CHR ''+'') then tl s else s)
      in if ds = [] \<or> \<not> list_all isDigit ds then Inl syntaxError
         else let n = (if neg then - digitsVal 0 ds else digitsVal 0 ds)
              in if n < - (2 ^ 63) \<or> 2 ^ 63 - 1 < n then Inl rangeError else Inr n)"

text \<open>The verb \<^verbatim>\<open>%d\<close> of \<^verbatim>\<open>fmt.Sprintf\<close> on an \<^verbatim>\<open>int\<close>.\<close>

fun digitsOf :: "nat \<Rightarrow> string" where
  "digitsOf n =
     (if n < 10 then [char_of (48 + n)]
      else digitsOf (n div 10) @ [char_of (48 + n mod 10)])"

declare digitsOf.simps [simp del]

definition fmt_d :: "int \<Rightarrow> string" where
  "fmt_d i = (if i < 0 then CHR ''-'' # digitsOf (nat (- i)) else digitsOf (nat i))"

subsection \<open>The version incrementer\<close>

text \<open>
  \<^verbatim>\<open>versionRegEx\<close> is \<^verbatim>\<open>\A(\d)+\.(\d)\.(\d)+\z\<close>: anchored at both ends, one or more
  digits, a dot, exactly one digit, a dot, one or more digits. A dot is not a digit, so a
  string matches in at most one way. The capture groups sit \<^emph>\<open>inside\<close> the repetitions:
  a repeated group reports the text of its last iteration, so groups 1 and 3 hold the last
  digit of their runs. The result is the submatch slice
  \<^verbatim>\<open>versionRegEx.FindAllStringSubmatch(version, -1)[0]\<close> (the whole match, then the
  three groups) when \<^verbatim>\<open>versionRegEx.MatchString(version)\<close> holds, and \<open>None\<close> otherwise.
\<close>

definition versionRegEx :: "string \<Rightarrow> string list option" where
  "versionRegEx version =
     (let major = takeWhile isDigit version; rest = dropWhile isDigit version
      in if major = [] then None
         else (case rest of
                 dot1 # minor # dot2 # patch \<Rightarrow>
                   if dot1 = CHR ''.'' \<and> isDigit minor \<and> dot2 = CHR ''.''
                      \<and> patch \<noteq> [] \<and> list_all isDigit patch
                   then Some [version, [last major], [minor], [last patch]]
                   else None
               | _ \<Rightarrow> None))"

definition formatError :: "string \<Rightarrow> error" where
  "formatError version =
     Error (''Version format should be [number.number.number] but was ['' @ version @ '']'')"

definition formatErrorWith :: "string \<Rightarrow> error \<Rightarrow> error" where
  "formatErrorWith version err =
     (case err of Error msg \<Rightarrow>
        Error (''Version format should be [number.number.number] but was ['' @ version
               @ '']: ['' @ msg @ '']''))"

definition getNextVersion :: "string \<Rightarrow> string \<Rightarrow> error + string" where
  "getNextVersion version mode =
     (case versionRegEx version of
        Some matches \<Rightarrow>
          (case Atoi (matches ! 1) of
             Inl err \<Rightarrow> Inl (formatErrorWith version err)
           | Inr majorVersion \<Rightarrow>
          (case Atoi (matches ! 2) of
             Inl err \<Rightarrow> Inl (formatErrorWith version err)
           | Inr minorVersion \<Rightarrow>
          (case Atoi (matches ! 3) of
             Inl err \<Rightarrow> Inl (formatErrorWith version err)
           | Inr patchVersion \<Rightarrow>
               (let (majorVersion, minorVersion, patchVersion) =
                      (if mode = ''PATCH'' then (majorVersion, minorVersion, wrap64 (patchVersion + 1))
                       else if mode = ''MINOR'' then (majorVersion, wrap64 (minorVersion + 1), patchVersion)
                       else if mode = ''MAJOR'' then (wrap64 (majorVersion + 1), minorVersion, patchVersion)
                       else (majorVersion, minorVersion, patchVersion))
                in Inr (fmt_d majorVersion @ ''.'' @ fmt_d minorVersion @ ''.'' @ fmt_d patchVersion)))))
      | None \<Rightarrow> Inl (formatError version))"

text \<open>
  The pattern of the specification, \<^verbatim>\<open>^\d+\.\d+\.\d+$\<close>, read as a match of the whole
  string: three non-empty runs of digits separated by two dots.
\<close>

definition specPattern :: "string \<Rightarrow> bool" where
  "specPattern version =
     (let major = takeWhile isDigit version; rest1 = dropWhile isDigit version
      in major \<noteq> [] \<and>
         (case rest1 of
            [] \<Rightarrow> False
          | dot1 # rest2 \<Rightarrow>
              dot1 = CHR ''.'' \<and>
              (let minor = takeWhile isDigit rest2; rest3 = dropWhile isDigit rest2
               in minor \<noteq> [] \<and>
                  (case rest3 of
                     [] \<Rightarrow> False
                   | dot2 # patch \<Rightarrow>
                       dot2 = CHR ''.'' \<and> patch \<noteq> [] \<and> list_all isDigit patch))))"


subsection \<open>The declaration renderer\<close>

text \<open>
  \<^verbatim>\<open>errWriter\<close>: the buffer it points to and the first error met. \<^verbatim>\<open>bytes.Buffer\<close>'s
  \<^verbatim>\<open>WriteString\<close> appends and returns a nil error.
\<close>

record errWriter =
  ew_b :: string
  ew_err :: "error option"

definition writeString :: "errWriter \<Rightarrow> string \<Rightarrow> errWriter" where
  "writeString ew val =
     (if ew_err ew \<noteq> None then ew
      else ew\<lparr>ew_b := ew_b ew @ val, ew_err := None\<rparr>)"

text \<open>\<^verbatim>\<open>fmt.Sprintln\<close> of one string: the string and a newline.\<close>

definition Sprintln :: "string \<Rightarrow> string" where
  "Sprintln s = s @ [newline]"

definition headerComment :: string where
  "headerComment = ''// GENERATED and MANAGED by giddyup (https://github.com/alexandre-normand/giddyup)''"

text \<open>
  \<open>writeHeader\<close> and \<open>generateContent\<close> take the buffer and return the error and the buffer
  as they leave it.
\<close>

definition writeHeader :: "string \<Rightarrow> string \<Rightarrow> error option \<times> string" where
  "writeHeader buffer variable =
     (let ew = \<lparr>ew_b = buffer, ew_err = None\<rparr>;
          ew = writeString ew (Sprintln headerComment)
      in (ew_err ew, ew_b ew))"

definition generateContent :: "string \<Rightarrow> string \<Rightarrow> string \<Rightarrow> string \<Rightarrow> error option \<times> string" where
  "generateContent pkg version variable buffer =
     (None,
      buffer @ ''package '' @ pkg @ [newline, newline] @ ''const ('' @ [newline, tab]
        @ variable @ '' = '' @ [dquote] @ version @ [dquote, newline] @ '')'' @ [newline])"

text \<open>
  The text \<^verbatim>\<open>run\<close> hands to \<^verbatim>\<open>ioutil.WriteFile\<close>: an empty buffer through \<open>writeHeader\<close>,
  then through \<open>generateContent\<close>.
\<close>

definition rendered :: "string \<Rightarrow> string \<Rightarrow> string \<Rightarrow> string" where
  "rendered pkg variable version =
     snd (generateContent pkg version variable (snd (writeHeader [] variable)))"

text \<open>\<^verbatim>\<open>strings.Split\<close> at a separator of one character; the lines of a text.\<close>

fun splitOn :: "char \<Rightarrow> string \<Rightarrow> string list" where
  "splitOn sep [] = [[]]"
| "splitOn sep (c # s) =
     (if c = sep then [] # splitOn sep s
      else (case splitOn sep s of l # ls \<Rightarrow> (c # l) # ls | [] \<Rightarrow> [[c]]))"

definition splitLines :: "string \<Rightarrow> string list" where
  "splitLines s = splitOn newline s"

subsection \<open>Syntax trees, the parser and the file system\<close>

text \<open>
  The part of \<^verbatim>\<open>go/ast\<close> the program inspects. \<^verbatim>\<open>token.Token\<close> is the kind of a
  general declaration and of a basic literal; an identifier is its name; \<open>OtherExpr\<close>
  stands for every expression node that is not a \<^verbatim>\<open>*ast.BasicLit\<close>.
\<close>

datatype token =
  tok_IMPORT | tok_CONST | tok_TYPE | tok_VAR
  | tok_INT | tok_FLOAT | tok_IMAG | tok_CHAR | tok_STRING

datatype expr = BasicLit token string | OtherExpr

datatype spec = ImportSpec | ValueSpec "string list" "expr list" | TypeSpec

datatype decl = BadDecl | GenDecl token "spec list" | FuncDecl

datatype ast_File = File (Name: string) (Decls: "decl list")

text \<open>
  The world outside the program, over a type \<open>'w\<close> of file-system states:
  \<^item> \<open>ParseFile w filename\<close> is \<^verbatim>\<open>parser.ParseFile(fset, filename, nil, 0)\<close>, which reads
    the file and parses it;
  \<^item> \<open>ReadDir w dirname\<close> is \<^verbatim>\<open>ioutil.ReadDir(dirname)\<close>, as the names of the entries in
    the order returned (sorted by name);
  \<^item> \<open>WriteFile w filename data perm\<close> is \<^verbatim>\<open>ioutil.WriteFile\<close>, returning the error and the
    file system it leaves;
  \<^item> \<open>Join\<close> and \<open>Dir\<close> are \<^verbatim>\<open>filepath.Join\<close> (of two elements) and \<^verbatim>\<open>filepath.Dir\<close>.
\<close>

record 'w os =
  ParseFile :: "'w \<Rightarrow> string \<Rightarrow> error + ast_File"
  ReadDir :: "'w \<Rightarrow> string \<Rightarrow> error + string list"
  WriteFile :: "'w \<Rightarrow> string \<Rightarrow> string \<Rightarrow> nat \<Rightarrow> error option \<times> 'w"
  Join :: "string \<Rightarrow> string \<Rightarrow> string"
  Dir :: "string \<Rightarrow> string"

text \<open>The flags the functions read as globals: \<^verbatim>\<open>*variable\<close> and \<^verbatim>\<open>*verbose\<close>.\<close>

record flags =
  flag_variable :: string
  flag_verbose :: bool

text \<open>The state a run threads: the file system and what was printed to standard output.\<close>

record 'w state =
  world :: 'w
  stdout :: string

definition Printf :: "string \<Rightarrow> 'w state \<Rightarrow> 'w state" where
  "Printf text st = st\<lparr>stdout := stdout st @ text\<rparr>"

text \<open>
  A call either returns or ends the process: \<^verbatim>\<open>log.Fatalf\<close> prints its message and exits
  with status 1.
\<close>

datatype 'a exec = Returns 'a | Fatal string

subsection \<open>The version locator\<close>

text \<open>\<^verbatim>\<open>strings.Trim(s, cutset)\<close> for a cutset of ASCII characters.\<close>

definition Trim :: "string \<Rightarrow> string \<Rightarrow> string" where
  "Trim s cutset =
     rev (dropWhile (\<lambda>c. c \<in> set cutset) (rev (dropWhile (\<lambda>c. c \<in> set cutset) s)))"

text \<open>
  The nested loops of \<open>getCurrentVersion\<close>, innermost first. Each returns \<open>Some\<close> where
  the source returns from the function, and \<open>None\<close> where its loop runs to the end.
\<close>

fun findInValues :: "expr list \<Rightarrow> string option" where
  "findInValues [] = None"
| "findInValues (BasicLit kind val # values) = Some (Trim val [dquote])"
| "findInValues (OtherExpr # values) = findInValues values"

fun findInNames :: "string \<Rightarrow> string list \<Rightarrow> expr list \<Rightarrow> string option" where
  "findInNames variable [] values = None"
| "findInNames variable (name # names) values =
     (if name = variable
      then (case findInValues values of
              Some v \<Rightarrow> Some v
            | None \<Rightarrow> findInNames variable names values)
      else findInNames variable names values)"

fun findInSpecs :: "string \<Rightarrow> spec list \<Rightarrow> string option" where
  "findInSpecs variable [] = None"
| "findInSpecs variable (ValueSpec names values # specs) =
     (case findInNames variable names values of
        Some v \<Rightarrow> Some v
      | None \<Rightarrow> findInSpecs variable specs)"
| "findInSpecs variable (_ # specs) = findInSpecs variable specs"

fun findInDecls :: "string \<Rightarrow> decl list \<Rightarrow> string option" where
  "findInDecls variable [] = None"
| "findInDecls variable (GenDecl tok specs # decls) =
     (if tok = tok_CONST
      then (case findInSpecs variable specs of
              Some v \<Rightarrow> Some v
            | None \<Rightarrow> findInDecls variable decls)
      else findInDecls variable decls)"
| "findInDecls variable (_ # decls) = findInDecls variable decls"

definition notFoundError :: "string \<Rightarrow> string \<Rightarrow> error" where
  "notFoundError variable versionFilePath =
     Error (''Could not find version constant ['' @ variable @ ''] in file [''
            @ versionFilePath @ '']'')"

definition getCurrentVersion ::
  "'w os \<Rightarrow> flags \<Rightarrow> string \<Rightarrow> bool \<Rightarrow> 'w state \<Rightarrow> (error + string) \<times> 'w state" where
  "getCurrentVersion os fl path lazyInit st =
     (let versionFilePath = Join os path ''version.go''
      in case ParseFile os (world st) versionFilePath of
           Inl err \<Rightarrow>
             if lazyInit
             then (Inr ''1.0.0'',
                   if flag_verbose fl
                   then Printf (''Version file not found at ['' @ versionFilePath
                                @ ''], initializing version to [1.0.0]'' @ [newline]) st
                   else st)
             else (Inl err, st)
         | Inr f \<Rightarrow>
             (case findInDecls (flag_variable fl) (Decls f) of
                Some v \<Rightarrow> (Inr v, st)
              | None \<Rightarrow> (Inl (notFoundError (flag_variable fl) versionFilePath), st)))"

subsection \<open>The package namer\<close>

text \<open>\<^verbatim>\<open>strings.HasSuffix\<close>.\<close>

definition HasSuffix :: "string \<Rightarrow> string \<Rightarrow> bool" where
  "HasSuffix s suff =
     (length suff \<le> length s \<and> drop (length s - length suff) s = suff)"

text \<open>
  The loop of \<open>parsePackage\<close> over the directory's entries. An entry is parsed under
  \<^verbatim>\<open>file.Name()\<close>, its base name, as the source does.
\<close>

fun parseFiles :: "'w os \<Rightarrow> 'w \<Rightarrow> string list \<Rightarrow> ast_File list \<Rightarrow> ast_File list exec" where
  "parseFiles os w [] astFiles = Returns astFiles"
| "parseFiles os w (name # files) astFiles =
     (if \<not> HasSuffix name ''.go'' then parseFiles os w files astFiles
      else (case ParseFile os w name of
              Inl (Error msg) \<Rightarrow> Fatal (''parsing package: '' @ name @ '': '' @ msg)
            | Inr parsedFile \<Rightarrow> parseFiles os w files (astFiles @ [parsedFile])))"

definition parsePackage :: "'w os \<Rightarrow> 'w \<Rightarrow> string \<Rightarrow> string exec" where
  "parsePackage os w directory =
     (case ReadDir os w directory of
        Inl (Error msg) \<Rightarrow> Fatal (''Failed to read directory ['' @ directory @ '']: '' @ msg)
      | Inr files \<Rightarrow>
          (case parseFiles os w files [] of
             Fatal msg \<Rightarrow> Fatal msg
           | Returns astFiles \<Rightarrow>
               (case astFiles of
                  [] \<Rightarrow> Fatal (directory @ '': no buildable Go files'')
                | first # _ \<Rightarrow> Returns (Name first))))"

subsection \<open>The run over the input paths\<close>

text \<open>
  The body of the loop of \<open>run\<close> for one path. It gives \<open>Returns None\<close> when the body
  reaches its end, \<open>Returns (Some err)\<close> where the source returns the error \<open>err\<close>, and
  \<open>Fatal msg\<close> when \<open>parsePackage\<close> ended the process. The file mode \<^verbatim>\<open>0644\<close> is 420.
\<close>

definition runPath ::
  "'w os \<Rightarrow> flags \<Rightarrow> string \<Rightarrow> string \<Rightarrow> string \<Rightarrow> bool \<Rightarrow> 'w state
     \<Rightarrow> error option exec \<times> 'w state" where
  "runPath os fl variable path mode lazyInit st0 =
     (case getCurrentVersion os fl path lazyInit st0 of
        (Inl err, st1) \<Rightarrow> (Returns (Some err), st1)
      | (Inr version, st1) \<Rightarrow>
          (let st2 = (if flag_verbose fl
                      then Printf (''Current version is ['' @ version @ '']'' @ [newline]) st1
                      else st1)
           in case getNextVersion version mode of
                Inl err \<Rightarrow> (Returns (Some err), st2)
              | Inr nextDevVersion \<Rightarrow>
                  (let st3 = (if flag_verbose fl
                              then Printf (''Next dev version is ['' @ nextDevVersion @ '']''
                                           @ [newline]) st2
                              else st2)
                   in case writeHeader [] variable of
                        (Some err, buffer) \<Rightarrow> (Returns (Some err), st3)
                      | (None, buffer) \<Rightarrow>
                          (case parsePackage os (world st3) path of
                             Fatal msg \<Rightarrow> (Fatal msg, st3)
                           | Returns pkg \<Rightarrow>
                               (case generateContent pkg nextDevVersion variable buffer of
                                  (Some err, buffer) \<Rightarrow> (Returns (Some err), st3)
                                | (None, buffer) \<Rightarrow>
                                    (let output = Dir os path @ ''/version.go''
                                     in case WriteFile os (world st3) output buffer 420 of
                                          (Some err, w) \<Rightarrow>
                                            (Returns (Some err), st3\<lparr>world := w\<rparr>)
                                        | (None, w) \<Rightarrow>
                                            (Returns None, st3\<lparr>world := w\<rparr>)))))))"

text \<open>The loop of \<open>run\<close>: it stops at the first path whose body returns an error.\<close>

fun run ::
  "'w os \<Rightarrow> flags \<Rightarrow> string \<Rightarrow> string list \<Rightarrow> string \<Rightarrow> bool \<Rightarrow> 'w state
     \<Rightarrow> error option exec \<times> 'w state" where
  "run os fl variable [] mode lazyInit st = (Returns None, st)"
| "run os fl variable (path # inputPaths) mode lazyInit st =
     (case runPath os fl variable path mode lazyInit st of
        (Returns None, st') \<Rightarrow> run os fl variable inputPaths mode lazyInit st'
      | (r, st') \<Rightarrow> (r, st'))"

subsection \<open>A file system in memory\<close>

text \<open>
  An instance of the interface \<open>os\<close>, to run the program on concrete inputs. Paths are those
  of Unix. \<open>Clean\<close> follows \<^verbatim>\<open>filepath.Clean\<close>: empty elements and \<^verbatim>\<open>.\<close> are dropped, an
  inner \<^verbatim>\<open>..\<close> removes the element before it, a \<^verbatim>\<open>..\<close> at the start of a rooted path is
  dropped, and the empty result is \<^verbatim>\<open>.\<close>.
\<close>

fun cleanElems :: "bool \<Rightarrow> string list \<Rightarrow> string list \<Rightarrow> string list" where
  "cleanElems rooted out [] = out"
| "cleanElems rooted out (e # es) =
     (if e = [] \<or> e = ''.'' then cleanElems rooted out es
      else if e = ''..'' then
        (if out \<noteq> [] \<and> last out \<noteq> ''..'' then cleanElems rooted (butlast out) es
         else if rooted then cleanElems rooted out es
         else cleanElems rooted (out @ [''..'']) es)
      else cleanElems rooted (out @ [e]) es)"

fun joinElems :: "string list \<Rightarrow> string" where
  "joinElems [] = []"
| "joinElems [e] = e"
| "joinElems (e # es) = e @ ''/'' @ joinElems es"

definition Clean :: "string \<Rightarrow> string" where
  "Clean path =
     (if path = [] then ''.''
      else let rooted = (hd path = CHR ''/'');
               out = cleanElems rooted [] (splitOn CHR ''/'' path)
           in if rooted then CHR ''/'' # joinElems out
              else if out = [] then ''.''
              else joinElems out)"

definition filepathJoin :: "string \<Rightarrow> string \<Rightarrow> string" where
  "filepathJoin a b =
     (if a \<noteq> [] then Clean (a @ ''/'' @ b)
      else if b \<noteq> [] then Clean b
      else [])"

definition filepathDir :: "string \<Rightarrow> string" where
  "filepathDir path = Clean (rev (dropWhile (\<lambda>c. c \<noteq> CHR ''/'') (rev path)))"

definition filepathBase :: "string \<Rightarrow> string" where
  "filepathBase path = rev (takeWhile (\<lambda>c. c \<noteq> CHR ''/'') (rev path))"

text \<open>
  A fragment of Go's scanner and parser, enough for the files the program writes: line
  comments, a package clause, and constant declarations \<^verbatim>\<open>name = "text"\<close>, alone or in a
  parenthesised group, over ASCII. The result \<open>Unsupported\<close> says that the text leaves the
  fragment and that the model does not know what the parser does with it; \<open>ScanError\<close> is
  an error Go's scanner reports, which makes \<^verbatim>\<open>parser.ParseFile\<close> return an error.
\<close>

datatype 'a scanres = Scanned 'a | ScanError string | Unsupported

datatype lexeme =
  L_IDENT string | L_STRING string | L_PACKAGE | L_CONST
  | L_LPAREN | L_RPAREN | L_ASSIGN | L_SEMICOLON

definition isLetter :: "char \<Rightarrow> bool" where
  "isLetter c =
     (let n = (of_char c :: nat)
      in (97 \<le> n \<and> n \<le> 122) \<or> (65 \<le> n \<and> n \<le> 90) \<or> n = 95)"

definition isLetterOrDigit :: "char \<Rightarrow> bool" where
  "isLetterOrDigit c = (isLetter c \<or> isDigit c)"

text \<open>Printable ASCII and the tab: the characters the fragment admits in comments and strings.\<close>

definition isPlain :: "char \<Rightarrow> bool" where
  "isPlain c = (let n = (of_char c :: nat) in (32 \<le> n \<and> n \<le> 126) \<or> n = 9)"

definition goKeywords :: "string list" where
  "goKeywords =
     [''break'', ''case'', ''chan'', ''const'', ''continue'', ''default'', ''defer'', ''else'',
      ''fallthrough'', ''for'', ''func'', ''go'', ''goto'', ''if'', ''import'', ''interface'',
      ''map'', ''package'', ''range'', ''return'', ''select'', ''struct'', ''switch'', ''type'',
      ''var'']"

definition consLexeme :: "lexeme \<Rightarrow> lexeme list scanres \<Rightarrow> lexeme list scanres" where
  "consLexeme l r =
     (case r of Scanned ls \<Rightarrow> Scanned (l # ls) | ScanError msg \<Rightarrow> ScanError msg
      | Unsupported \<Rightarrow> Unsupported)"

lemma length_dropWhile_Cons:
  "y # ys = dropWhile P xs \<Longrightarrow> length ys < Suc (length xs)"
  using length_dropWhile_le [of P xs] by (metis Suc_le_lessD le_imp_less_Suc length_Cons less_imp_le)

text \<open>
  The scanner. Its first argument says whether a newline (or the end of the text) is
  turned into a semicolon: after an identifier, a string and a closing parenthesis.
\<close>

function scan :: "bool \<Rightarrow> string \<Rightarrow> lexeme list scanres" where
  "scan semi s =
     (case s of
        [] \<Rightarrow> Scanned (if semi then [L_SEMICOLON] else [])
      | c # cs \<Rightarrow>
          if c = newline then
            (if semi then consLexeme L_SEMICOLON (scan False cs) else scan False cs)
          else if c = CHR '' '' \<or> c = tab then scan semi cs
          else if c = CHR ''/'' then
            (if cs \<noteq> [] \<and> hd cs = CHR ''/''
                \<and> list_all isPlain (takeWhile (\<lambda>x. x \<noteq> newline) cs)
             then scan semi (dropWhile (\<lambda>x. x \<noteq> newline) cs)
             else Unsupported)
          else if isLetter c then
            (let name = c # takeWhile isLetterOrDigit cs;
                 rest = dropWhile isLetterOrDigit cs
             in if name = ''package'' then consLexeme L_PACKAGE (scan False rest)
                else if name = ''const'' then consLexeme L_CONST (scan False rest)
                else if name \<in> set goKeywords then Unsupported
                else consLexeme (L_IDENT name) (scan True rest))
          else if c = dquote then
            (let body = takeWhile (\<lambda>x. x \<noteq> dquote \<and> x \<noteq> newline) cs;
                 rest = dropWhile (\<lambda>x. x \<noteq> dquote \<and> x \<noteq> newline) cs
             in if \<not> list_all isPlain body \<or> CHR 0x5C \<in> set body then Unsupported
                else (case rest of
                        [] \<Rightarrow> ScanError ''string literal not terminated''
                      | q # rest' \<Rightarrow>
                          if q = dquote
                          then consLexeme (L_STRING ([dquote] @ body @ [dquote])) (scan True rest')
                          else ScanError ''string literal not terminated''))
          else if c = CHR ''('' then consLexeme L_LPAREN (scan False cs)
          else if c = CHR '')'' then consLexeme L_RPAREN (scan True cs)
          else if c = CHR ''='' then
            (if cs \<noteq> [] \<and> hd cs = CHR ''='' then Unsupported
             else consLexeme L_ASSIGN (scan False cs))
          else if c = CHR '';'' then consLexeme L_SEMICOLON (scan False cs)
          else Unsupported)"
  by pat_completeness auto

termination
  by (relation "measure (\<lambda>(semi, s). length s)")
     (auto simp: le_imp_less_Suc length_dropWhile_le dest: length_dropWhile_Cons)

declare scan.simps [simp del]

text \<open>
  The parser of the fragment, over the scanner's lexemes. \<open>None\<close> says that the lexemes
  leave the fragment. A constant specification is one name, \<^verbatim>\<open>=\<close> and one string; in a
  group each is followed by a semicolon, which may be left out before the closing
  parenthesis.
\<close>

fun parseSpecs :: "lexeme list \<Rightarrow> (spec list \<times> lexeme list) option" where
  "parseSpecs (L_RPAREN # ls) = Some ([], ls)"
| "parseSpecs (L_IDENT name # L_ASSIGN # L_STRING lit # L_SEMICOLON # ls) =
     (case parseSpecs ls of
        Some (specs, rest) \<Rightarrow> Some (ValueSpec [name] [BasicLit tok_STRING lit] # specs, rest)
      | None \<Rightarrow> None)"
| "parseSpecs (L_IDENT name # L_ASSIGN # L_STRING lit # L_RPAREN # ls) =
     Some ([ValueSpec [name] [BasicLit tok_STRING lit]], ls)"
| "parseSpecs _ = None"

lemma parseSpecs_length:
  "parseSpecs ls = Some (specs, rest) \<Longrightarrow> length rest < length ls"
  by (induction ls arbitrary: specs rest rule: parseSpecs.induct)
     (auto split: option.splits prod.splits)

function parseDecls :: "lexeme list \<Rightarrow> decl list option" where
  "parseDecls ls =
     (case ls of
        [] \<Rightarrow> Some []
      | L_CONST # L_LPAREN # ls1 \<Rightarrow>
          (case parseSpecs ls1 of
             Some (specs, L_SEMICOLON # rest) \<Rightarrow>
               (case parseDecls rest of
                  Some decls \<Rightarrow> Some (GenDecl tok_CONST specs # decls)
                | None \<Rightarrow> None)
           | _ \<Rightarrow> None)
      | L_CONST # L_IDENT name # L_ASSIGN # L_STRING lit # L_SEMICOLON # rest \<Rightarrow>
          (case parseDecls rest of
             Some decls \<Rightarrow>
               Some (GenDecl tok_CONST [ValueSpec [name] [BasicLit tok_STRING lit]] # decls)
           | None \<Rightarrow> None)
      | _ \<Rightarrow> None)"
  by pat_completeness auto

termination
  by (relation "measure length") (auto dest: parseSpecs_length)

declare parseDecls.simps [simp del]

definition parseLexemes :: "lexeme list \<Rightarrow> ast_File option" where
  "parseLexemes ls =
     (case ls of
        L_PACKAGE # L_IDENT name # L_SEMICOLON # rest \<Rightarrow>
          if name = ''_'' then None
          else (case parseDecls rest of
                  Some decls \<Rightarrow> Some (File name decls)
                | None \<Rightarrow> None)
      | _ \<Rightarrow> None)"

text \<open>
  The parser on a source text: \<open>Some (Inr f)\<close> and \<open>Some (Inl err)\<close> for what
  \<^verbatim>\<open>parser.ParseFile\<close> returns on a text of the fragment, \<open>None\<close> outside it.
\<close>

definition goParse :: "string \<Rightarrow> (error + ast_File) option" where
  "goParse src =
     (case scan False src of
        Scanned ls \<Rightarrow> (case parseLexemes ls of Some f \<Rightarrow> Some (Inr f) | None \<Rightarrow> None)
      | ScanError msg \<Rightarrow> Some (Inl (Error msg))
      | Unsupported \<Rightarrow> None)"

text \<open>
  The file system: the contents of the files and the entries of the directories, each
  under its cleaned path. \<open>memParseFile\<close> reports a file outside the fragment as an error
  of its own; the worlds used below hold files of the fragment only.
\<close>

record memfs =
  mem_files :: "string \<rightharpoonup> string"
  mem_dirs :: "string \<rightharpoonup> string list"

definition memParseFile :: "memfs \<Rightarrow> string \<Rightarrow> error + ast_File" where
  "memParseFile w filename =
     (case mem_files w (Clean filename) of
        None \<Rightarrow> Inl (Error (''open '' @ filename @ '': no such file or directory''))
      | Some src \<Rightarrow>
          (case goParse src of
             Some r \<Rightarrow> r
           | None \<Rightarrow> Inl (Error (filename @ '': outside the modelled fragment''))))"

definition memReadDir :: "memfs \<Rightarrow> string \<Rightarrow> error + string list" where
  "memReadDir w dirname =
     (case mem_dirs w (Clean dirname) of
        None \<Rightarrow> Inl (Error (''open '' @ dirname @ '': no such file or directory''))
      | Some names \<Rightarrow> Inr names)"

definition memWriteFile :: "memfs \<Rightarrow> string \<Rightarrow> string \<Rightarrow> nat \<Rightarrow> error option \<times> memfs" where
  "memWriteFile w filename data perm =
     (let path = Clean filename; d = filepathDir path; base = filepathBase path
      in case mem_dirs w d of
           None \<Rightarrow> (Some (Error (''open '' @ filename @ '': no such file or directory'')), w)
         | Some names \<Rightarrow>
             (None,
              w\<lparr>mem_files := (mem_files w)(path \<mapsto> data),
                mem_dirs := (mem_dirs w)(d \<mapsto> (if base \<in> set names then names
                                                  else insort base names))\<rparr>))"

definition memOS :: "memfs os" where
  "memOS =
     \<lparr>ParseFile = memParseFile, ReadDir = memReadDir, WriteFile = memWriteFile,
      Join = filepathJoin, Dir = filepathDir\<rparr>"

text \<open>
  A project directory, the working directory of the run: \<^verbatim>\<open>main.go\<close> declares the
  package, \<^verbatim>\<open>version.go\<close> is the file the program wrote for version 1.0.0.
\<close>

definition projectWorld :: memfs where
  "projectWorld =
     \<lparr>mem_files = [''main.go'' \<mapsto> ''package main'' @ [newline],
                   ''version.go'' \<mapsto> rendered ''main'' ''VERSION'' ''1.0.0''],
      mem_dirs = [''.'' \<mapsto> [''main.go'', ''version.go'']]\<rparr>"

definition defaultFlags :: flags where
  "defaultFlags = \<lparr>flag_variable = ''VERSION'', flag_verbose = False\<rparr>"

definition freshWorld :: memfs where
  "freshWorld =
     \<lparr>mem_files = [''main.go'' \<mapsto> ''package main'' @ [newline]],
      mem_dirs = [''.'' \<mapsto> [''main.go'']]\<rparr>"

definition brokenWorld :: memfs where
  "brokenWorld =
     \<lparr>mem_files = [''main.go'' \<mapsto> ''package main'' @ [newline],
                   ''version.go'' \<mapsto> rendered ''main'' ''VERSION'' [dquote]],
      mem_dirs = [''.'' \<mapsto> [''main.go'', ''version.go'']]\<rparr>"

definition otherConstWorld :: memfs where
  "otherConstWorld =
     \<lparr>mem_files = [''main.go'' \<mapsto> ''package main'' @ [newline],
                   ''version.go'' \<mapsto> rendered ''main'' ''OTHER'' ''1.0.0''],
      mem_dirs = [''.'' \<mapsto> [''main.go'', ''version.go'']]\<rparr>"

text \<open>
  What the specification calls a constant declaration matching the requested name: a
  general declaration with the keyword \<^verbatim>\<open>const\<close> one of whose value specifications lists
  the name.
\<close>

definition declaresConst :: "string \<Rightarrow> decl list \<Rightarrow> bool" where
  "declaresConst variable decls =
     list_ex (\<lambda>d. case d of
                GenDecl tok specs \<Rightarrow>
                  tok = tok_CONST \<and>
                  list_ex (\<lambda>s. case s of
                             ValueSpec names values \<Rightarrow> variable \<in> set names
                           | _ \<Rightarrow> False) specs
              | _ \<Rightarrow> False) decls"

text \<open>
  The amended reading of the package namer, in the specification's words: fatal when the
  directory cannot be listed; among the entries whose names end in \<^verbatim>\<open>.go\<close>, each read
  from the directory, fatal at the first one that fails to parse; fatal when there is no
  such entry; otherwise the package name of the first such entry.
\<close>

definition errorMessage :: "error \<Rightarrow> string" where
  "errorMessage err = (case err of Error msg \<Rightarrow> msg)"

definition parsePackageSpec :: "'w os \<Rightarrow> 'w \<Rightarrow> string \<Rightarrow> string exec" where
  "parsePackageSpec os w directory =
     (case ReadDir os w directory of
        Inl err \<Rightarrow> Fatal (''Failed to read directory ['' @ directory @ '']: '' @ errorMessage err)
      | Inr files \<Rightarrow>
          (let sources = filter (\<lambda>name. HasSuffix name ''.go'') files;
               failing = filter (\<lambda>name. isl (ParseFile os w (Join os directory name))) sources
           in if failing \<noteq> [] then
                Fatal (''parsing package: '' @ hd failing @ '': ''
                       @ errorMessage (projl (ParseFile os w (Join os directory (hd failing)))))
              else if sources = [] then Fatal (directory @ '': no buildable Go files'')
              else Returns (Name (projr (ParseFile os w (Join os directory (hd sources)))))))"

text \<open>A directory whose first source file parses and whose second does not.\<close>

definition brokenSiblingWorld :: memfs where
  "brokenSiblingWorld =
     \<lparr>mem_files = [''a.go'' \<mapsto> ''package main'' @ [newline],
                   ''b.go'' \<mapsto> ''package main'' @ [newline] @ ''const X = '' @ [dquote] @ [newline]],
      mem_dirs = [''.'' \<mapsto> [''a.go'', ''b.go'']]\<rparr>"


definition isVersionText :: "string \<Rightarrow> bool" where
  "isVersionText v = list_all (\<lambda>c. isPlain c \<and> c \<noteq> dquote \<and> c \<noteq> CHR 0x5C) v"

text \<open>The value of a digit character.\<close>

definition digitValue :: "char \<Rightarrow> int" where
  "digitValue c = int (of_char c) - 48"

subsection \<open>Properties of the incrementer\<close>

lemma dot_not_digit: "\<not> isDigit CHR ''.''"
  by (simp add: isDigit_def)

lemma versionRegEx_Some:
  assumes "versionRegEx version = Some matches"
  obtains minor patch where
    "takeWhile isDigit version \<noteq> []"
    "dropWhile isDigit version = CHR ''.'' # minor # CHR ''.'' # patch"
    "isDigit minor" "patch \<noteq> []" "list_all isDigit patch"
    "matches = [version, [last (takeWhile isDigit version)], [minor], [last patch]]"
  using assms unfolding versionRegEx_def Let_def
  by (simp split: if_splits list.splits)

text \<open>Every string the code's pattern accepts is accepted by the specification's pattern.\<close>

lemma versionRegEx_specPattern:
  assumes "versionRegEx version = Some matches"
  shows "specPattern version"
proof -
  from assms obtain minor patch where
    "takeWhile isDigit version \<noteq> []"
    "dropWhile isDigit version = CHR ''.'' # minor # CHR ''.'' # patch"
    "isDigit minor" "patch \<noteq> []" "list_all isDigit patch"
    by (rule versionRegEx_Some)
  then show ?thesis
    by (simp add: specPattern_def dot_not_digit)
qed

text \<open>\<open>specPattern\<close> is the declarative reading of the specification's pattern.\<close>

lemma specPattern_iff:
  "specPattern version \<longleftrightarrow>
     (\<exists>M N P. version = M @ ''.'' @ N @ ''.'' @ P \<and> M \<noteq> [] \<and> N \<noteq> [] \<and> P \<noteq> []
        \<and> list_all isDigit M \<and> list_all isDigit N \<and> list_all isDigit P)"
proof
  assume "specPattern version"
  then show "\<exists>M N P. version = M @ ''.'' @ N @ ''.'' @ P \<and> M \<noteq> [] \<and> N \<noteq> [] \<and> P \<noteq> []
        \<and> list_all isDigit M \<and> list_all isDigit N \<and> list_all isDigit P"
    apply (auto simp: specPattern_def Let_def split: list.splits)
    subgoal for r2 p
      apply (rule exI[of _ "takeWhile isDigit version"])
      apply (rule exI[of _ "takeWhile isDigit r2"])
      apply (rule exI[of _ p])
      apply (auto simp: list_all_iff dest: set_takeWhileD)
      by (metis takeWhile_dropWhile_id)
    done
next
  assume "\<exists>M N P. version = M @ ''.'' @ N @ ''.'' @ P \<and> M \<noteq> [] \<and> N \<noteq> [] \<and> P \<noteq> []
        \<and> list_all isDigit M \<and> list_all isDigit N \<and> list_all isDigit P"
  then obtain M N P where v: "version = M @ ''.'' @ N @ ''.'' @ P"
    and ne: "M \<noteq> []" "N \<noteq> []" "P \<noteq> []"
    and d: "list_all isDigit M" "list_all isDigit N" "list_all isDigit P" by blast
  have tw: "\<And>xs ys. list_all isDigit xs \<Longrightarrow> takeWhile isDigit (xs @ CHR ''.'' # ys) = xs"
    by (simp add: list_all_iff dot_not_digit)
  have dw: "\<And>xs ys. list_all isDigit xs \<Longrightarrow> dropWhile isDigit (xs @ CHR ''.'' # ys) = CHR ''.'' # ys"
    by (simp add: list_all_iff dot_not_digit)
  show "specPattern version"
    using ne d by (simp add: specPattern_def v tw dw)
qed

lemma getNextVersion_no_match:
  "versionRegEx version = None \<Longrightarrow> getNextVersion version mode = Inl (formatError version)"
  by (simp add: getNextVersion_def)

lemma sublist_formatError:
  "formatError version = Error msg \<Longrightarrow> sublist version msg"
  unfolding formatError_def sublist_def by blast

text \<open>
  Claim C2. For every input string that does not match the anchored pattern
  \<^verbatim>\<open>^\d+\.\d+\.\d+$\<close>, \<open>getNextVersion\<close> returns an error and no version, in every mode,
  and the error's message contains the offending input string. The input \<^verbatim>\<open>1.x.0\<close> is
  such a string (see the witness).
\<close>

theorem getNextVersion_rejects_malformed:
  assumes "\<not> specPattern version"
  shows "\<exists>msg. getNextVersion version mode = Inl (Error msg) \<and> sublist version msg
           \<and> Error msg = formatError version"
proof -
  have "versionRegEx version = None"
    using assms versionRegEx_specPattern by (cases "versionRegEx version") auto
  then have "getNextVersion version mode = Inl (formatError version)"
    by (rule getNextVersion_no_match)
  moreover obtain msg where "formatError version = Error msg"
    by (cases "formatError version") auto
  ultimately show ?thesis
    using sublist_formatError by fastforce
qed

theorem getNextVersion_rejects_malformed_witness:
  "\<not> specPattern ''1.x.0''
   \<and> getNextVersion ''1.x.0'' ''PATCH''
       = Inl (Error ''Version format should be [number.number.number] but was [1.x.0]'')
   \<and> sublist ''1.x.0'' ''Version format should be [number.number.number] but was [1.x.0]''"
proof -
  have h: "\<not> specPattern ''1.x.0''"
    by code_simp
  have e: "formatError ''1.x.0''
             = Error ''Version format should be [number.number.number] but was [1.x.0]''"
    by (simp add: formatError_def)
  from getNextVersion_rejects_malformed [OF h, of "''PATCH''"] h e show ?thesis
    by auto
qed

text \<open>
  Claim C8. \<open>getNextVersion\<close> maps \<^verbatim>\<open>1.0.0\<close> in mode PATCH to \<^verbatim>\<open>1.0.1\<close>, \<^verbatim>\<open>1.2.9\<close> in mode
  MINOR to \<^verbatim>\<open>1.3.9\<close>, and \<^verbatim>\<open>2.5.7\<close> in mode MAJOR to \<^verbatim>\<open>3.5.7\<close>, each without error.
\<close>

theorem getNextVersion_scenarios:
  "getNextVersion ''1.0.0'' ''PATCH'' = Inr ''1.0.1''
   \<and> getNextVersion ''1.2.9'' ''MINOR'' = Inr ''1.3.9''
   \<and> getNextVersion ''2.5.7'' ''MAJOR'' = Inr ''3.5.7''"
  by code_simp

text \<open>
  Claim C1 says that every \<^verbatim>\<open>M.N.P\<close> with numerals of any number of digits is incremented
  in the selected component. The code does not do that when a numeral has more than one
  digit: the groups of \<open>versionRegEx\<close> capture one digit each, so \<^verbatim>\<open>10.0.0\<close> in mode PATCH
  becomes \<^verbatim>\<open>0.0.1\<close>, \<^verbatim>\<open>1.2.9\<close> in mode PATCH becomes \<^verbatim>\<open>1.2.10\<close> and that in turn
  \<^verbatim>\<open>1.2.1\<close>, and a minor numeral of two digits, as in \<^verbatim>\<open>1.10.0\<close>, is rejected.
\<close>

theorem getNextVersion_multi_digit:
  "getNextVersion ''10.0.0'' ''PATCH'' = Inr ''0.0.1''
   \<and> getNextVersion ''1.2.9'' ''PATCH'' = Inr ''1.2.10''
   \<and> getNextVersion ''1.2.10'' ''PATCH'' = Inr ''1.2.1''
   \<and> getNextVersion ''1.10.0'' ''PATCH'' = Inl (formatError ''1.10.0'')"
  by code_simp


lemma digitValue_range: "isDigit c \<Longrightarrow> 0 \<le> digitValue c \<and> digitValue c \<le> 9"
  by (simp add: isDigit_def digitValue_def)

lemma Atoi_digit: "isDigit c \<Longrightarrow> Atoi [c] = Inr (digitValue c)"
proof -
  assume d: "isDigit c"
  have s: "c \<noteq> CHR ''-''" "c \<noteq> CHR ''+''"
    using d by (auto simp: isDigit_def)
  show ?thesis
    using d s digitValue_range [OF d]
    by (simp add: Atoi_def Let_def digitValue_def)
qed

lemma fmt_d_digit: "isDigit c \<Longrightarrow> fmt_d (digitValue c) = [c]"
proof -
  assume d: "isDigit c"
  have n: "nat (digitValue c) = of_char c - 48"
    by (simp add: digitValue_def)
  have "of_char c - (48::nat) < 10" "48 + (of_char c - (48::nat)) = of_char c"
    using d by (auto simp: isDigit_def)
  then show ?thesis
    using digitValue_range [OF d]
    by (simp add: fmt_d_def n digitsOf.simps [of "of_char c - 48"])
qed

lemma wrap64_small: "- (2 ^ 63) \<le> x \<Longrightarrow> x < 2 ^ 63 \<Longrightarrow> wrap64 x = x"
  by (simp add: wrap64_def)

lemma last_takeWhile_digit:
  "takeWhile isDigit s \<noteq> [] \<Longrightarrow> isDigit (last (takeWhile isDigit s))"
  using set_takeWhileD [of "last (takeWhile isDigit s)" isDigit s] last_in_set by blast

lemma last_digit: "s \<noteq> [] \<Longrightarrow> list_all isDigit s \<Longrightarrow> isDigit (last s)"
  by (simp add: list_all_iff)

text \<open>
  What the incrementer does on every string its pattern accepts: it never fails, and its
  result is made of the three captured digits, the selected one plus one.
\<close>

lemma getNextVersion_accepted:
  assumes "versionRegEx version = Some matches"
  obtains a b c where "matches = [version, [a], [b], [c]]"
    and "isDigit a" and "isDigit b" and "isDigit c"
    and "getNextVersion version mode =
           Inr (fmt_d (if mode = ''MAJOR'' then digitValue a + 1 else digitValue a) @ ''.''
                @ fmt_d (if mode = ''MINOR'' then digitValue b + 1 else digitValue b) @ ''.''
                @ fmt_d (if mode = ''PATCH'' then digitValue c + 1 else digitValue c))"
proof -
  from assms obtain minor patch where
    m: "takeWhile isDigit version \<noteq> []" "isDigit minor" "patch \<noteq> []" "list_all isDigit patch"
       "matches = [version, [last (takeWhile isDigit version)], [minor], [last patch]]"
    by (rule versionRegEx_Some)
  let ?a = "last (takeWhile isDigit version)" and ?c = "last patch"
  have da: "isDigit ?a" using m(1) by (rule last_takeWhile_digit)
  have dc: "isDigit ?c" using m(3,4) by (rule last_digit)
  have w: "wrap64 (digitValue ?a + 1) = digitValue ?a + 1"
          "wrap64 (digitValue minor + 1) = digitValue minor + 1"
          "wrap64 (digitValue ?c + 1) = digitValue ?c + 1"
    using digitValue_range [OF da] digitValue_range [OF m(2)] digitValue_range [OF dc]
    by (simp_all add: wrap64_small)
  have "getNextVersion version mode =
           Inr (fmt_d (if mode = ''MAJOR'' then digitValue ?a + 1 else digitValue ?a) @ ''.''
                @ fmt_d (if mode = ''MINOR'' then digitValue minor + 1 else digitValue minor) @ ''.''
                @ fmt_d (if mode = ''PATCH'' then digitValue ?c + 1 else digitValue ?c))"
    using assms w
    by (simp add: getNextVersion_def m(5) Atoi_digit [OF da] Atoi_digit [OF m(2)]
                  Atoi_digit [OF dc])
  then show ?thesis
    using that [OF m(5) da m(2) dc] by blast
qed

text \<open>
  A mode other than MAJOR, MINOR and PATCH is ignored without an error: the result is the
  three captured digits.
\<close>

lemma getNextVersion_unknown_mode:
  assumes "versionRegEx version = Some matches"
    and "mode \<noteq> ''MAJOR''" and "mode \<noteq> ''MINOR''" and "mode \<noteq> ''PATCH''"
  shows "getNextVersion version mode = Inr (matches ! 1 @ ''.'' @ matches ! 2 @ ''.'' @ matches ! 3)"
proof -
  from assms(1) obtain a b c where "matches = [version, [a], [b], [c]]"
    and "isDigit a" and "isDigit b" and "isDigit c"
    and "getNextVersion version mode =
           Inr (fmt_d (if mode = ''MAJOR'' then digitValue a + 1 else digitValue a) @ ''.''
                @ fmt_d (if mode = ''MINOR'' then digitValue b + 1 else digitValue b) @ ''.''
                @ fmt_d (if mode = ''PATCH'' then digitValue c + 1 else digitValue c))"
    by (rule getNextVersion_accepted)
  then show ?thesis
    using assms(2-4) by (simp add: fmt_d_digit)
qed

text \<open>
  On a version of three single digits the incrementer does what claim C1 says: the
  selected component is incremented and the other two are returned as they were.
\<close>

lemma getNextVersion_single_digits:
  assumes "isDigit a" and "isDigit b" and "isDigit c"
  shows "getNextVersion ([a] @ ''.'' @ [b] @ ''.'' @ [c]) ''PATCH''
           = Inr ([a] @ ''.'' @ [b] @ ''.'' @ fmt_d (digitValue c + 1))"
    and "getNextVersion ([a] @ ''.'' @ [b] @ ''.'' @ [c]) ''MINOR''
           = Inr ([a] @ ''.'' @ fmt_d (digitValue b + 1) @ ''.'' @ [c])"
    and "getNextVersion ([a] @ ''.'' @ [b] @ ''.'' @ [c]) ''MAJOR''
           = Inr (fmt_d (digitValue a + 1) @ ''.'' @ [b] @ ''.'' @ [c])"
proof -
  have r: "versionRegEx ([a] @ ''.'' @ [b] @ ''.'' @ [c])
             = Some [[a] @ ''.'' @ [b] @ ''.'' @ [c], [a], [b], [c]]"
    using assms by (simp add: versionRegEx_def dot_not_digit)
  have w: "wrap64 (digitValue a + 1) = digitValue a + 1"
          "wrap64 (digitValue b + 1) = digitValue b + 1"
          "wrap64 (digitValue c + 1) = digitValue c + 1"
    using digitValue_range [OF assms(1)] digitValue_range [OF assms(2)]
          digitValue_range [OF assms(3)]
    by (simp_all add: wrap64_small)
  show "getNextVersion ([a] @ ''.'' @ [b] @ ''.'' @ [c]) ''PATCH''
           = Inr ([a] @ ''.'' @ [b] @ ''.'' @ fmt_d (digitValue c + 1))"
    using assms w
    by (simp add: getNextVersion_def r Atoi_digit fmt_d_digit del: append.simps)
  show "getNextVersion ([a] @ ''.'' @ [b] @ ''.'' @ [c]) ''MINOR''
           = Inr ([a] @ ''.'' @ fmt_d (digitValue b + 1) @ ''.'' @ [c])"
    using assms w
    by (simp add: getNextVersion_def r Atoi_digit fmt_d_digit del: append.simps)
  show "getNextVersion ([a] @ ''.'' @ [b] @ ''.'' @ [c]) ''MAJOR''
           = Inr (fmt_d (digitValue a + 1) @ ''.'' @ [b] @ ''.'' @ [c])"
    using assms w
    by (simp add: getNextVersion_def r Atoi_digit fmt_d_digit del: append.simps)
qed

subsection \<open>Properties of the renderer\<close>

text \<open>
  Claim C5, amended. For every package name, constant name and version string, the rendered
  text is exactly: the comment line that marks the file as generated and managed, then at
  once (with no blank line between them) the package header, then a blank line, then the
  constant block binding the constant name to the quoted version string; every line ends
  with a newline.
\<close>

theorem rendered_layout:
  "rendered pkg variable version =
     headerComment @ [newline]
     @ ''package '' @ pkg @ [newline]
     @ [newline]
     @ ''const ('' @ [newline]
     @ [tab] @ variable @ '' = '' @ [dquote] @ version @ [dquote] @ [newline]
     @ '')'' @ [newline]"
  by (simp add: rendered_def generateContent_def writeHeader_def writeString_def Sprintln_def)

text \<open>
  Claim C5 as stated puts a blank line between the comment line and the package header.
  The second line of the rendered text is the package header, and the blank line is the
  third.
\<close>

theorem rendered_lines_example:
  "splitLines (rendered ''main'' ''VERSION'' ''1.0.1'') =
     [''// GENERATED and MANAGED by giddyup (https://github.com/alexandre-normand/giddyup)'',
      ''package main'',
      '''',
      ''const ('',
      [tab] @ ''VERSION = '' @ [dquote] @ ''1.0.1'' @ [dquote],
      '')'',
      '''']"
  by code_simp

subsection \<open>Properties of the locator\<close>


text \<open>
  Claim C3. When the version file of a path cannot be found or cannot be parsed, that is,
  when parsing the file at the path joined with \<^verbatim>\<open>version.go\<close> gives an error,
  \<open>getCurrentVersion\<close> with initialization requested returns \<^verbatim>\<open>1.0.0\<close> and no error, and
  with initialization not requested it returns that error and no version.
\<close>

theorem getCurrentVersion_no_file:
  assumes "ParseFile os (world st) (Join os path ''version.go'') = Inl err"
  shows "fst (getCurrentVersion os fl path True st) = Inr ''1.0.0''
         \<and> fst (getCurrentVersion os fl path False st) = Inl err"
  using assms by (simp add: getCurrentVersion_def)

lemma findInNames_None:
  "variable \<notin> set names \<Longrightarrow> findInNames variable names values = None"
  by (induction names) auto

lemma findInSpecs_None:
  "\<not> list_ex (\<lambda>s. case s of ValueSpec names values \<Rightarrow> variable \<in> set names | _ \<Rightarrow> False) specs
   \<Longrightarrow> findInSpecs variable specs = None"
  by (induction variable specs rule: findInSpecs.induct) (auto simp: findInNames_None)

lemma findInDecls_None:
  "\<not> declaresConst variable decls \<Longrightarrow> findInDecls variable decls = None"
  unfolding declaresConst_def
  by (induction variable decls rule: findInDecls.induct) (auto simp: findInSpecs_None)

text \<open>
  Claim C6. When the version file of a path exists and parses but holds no constant
  declaration of the requested name, \<open>getCurrentVersion\<close> returns an error whose message
  contains the constant name and the path of the file, whether initialization is
  requested or not: the case is never defaulted to \<^verbatim>\<open>1.0.0\<close>.
\<close>

theorem getCurrentVersion_no_constant:
  assumes "ParseFile os (world st) (Join os path ''version.go'') = Inr f"
    and "\<not> declaresConst (flag_variable fl) (Decls f)"
  shows "\<exists>msg. fst (getCurrentVersion os fl path lazyInit st) = Inl (Error msg)
           \<and> Error msg = notFoundError (flag_variable fl) (Join os path ''version.go'')
           \<and> sublist (flag_variable fl) msg
           \<and> sublist (Join os path ''version.go'') msg"
proof -
  have "findInDecls (flag_variable fl) (Decls f) = None"
    using assms(2) by (rule findInDecls_None)
  then have "fst (getCurrentVersion os fl path lazyInit st)
               = Inl (notFoundError (flag_variable fl) (Join os path ''version.go''))"
    using assms(1) by (simp add: getCurrentVersion_def)
  moreover have "sublist (flag_variable fl)
      (''Could not find version constant ['' @ flag_variable fl @ ''] in file [''
            @ Join os path ''version.go'' @ '']'')"
    unfolding sublist_def by blast
  moreover have "sublist (Join os path ''version.go'')
      (''Could not find version constant ['' @ flag_variable fl @ ''] in file [''
            @ Join os path ''version.go'' @ '']'')"
    unfolding sublist_def
    by (rule exI[of _ "''Could not find version constant ['' @ flag_variable fl @ ''] in file [''"], rule exI[of _ "'']''"]) simp
  ultimately show ?thesis
    by (simp add: notFoundError_def)
qed

theorem getCurrentVersion_no_file_witness:
  "ParseFile memOS (world \<lparr>world = freshWorld, stdout = []\<rparr>) (Join memOS ''.'' ''version.go'')
     = Inl (Error ''open version.go: no such file or directory'')
   \<and> fst (getCurrentVersion memOS defaultFlags ''.'' True \<lparr>world = freshWorld, stdout = []\<rparr>)
       = Inr ''1.0.0''
   \<and> fst (getCurrentVersion memOS defaultFlags ''.'' False \<lparr>world = freshWorld, stdout = []\<rparr>)
       = Inl (Error ''open version.go: no such file or directory'')
   \<and> ParseFile memOS (world \<lparr>world = brokenWorld, stdout = []\<rparr>) (Join memOS ''.'' ''version.go'')
       = Inl (Error ''string literal not terminated'')
   \<and> fst (getCurrentVersion memOS defaultFlags ''.'' True \<lparr>world = brokenWorld, stdout = []\<rparr>)
       = Inr ''1.0.0''
   \<and> fst (getCurrentVersion memOS defaultFlags ''.'' False \<lparr>world = brokenWorld, stdout = []\<rparr>)
       = Inl (Error ''string literal not terminated'')"
proof -
  have h1: "ParseFile memOS (world \<lparr>world = freshWorld, stdout = []\<rparr>) (Join memOS ''.'' ''version.go'')
     = Inl (Error ''open version.go: no such file or directory'')"
    by code_simp
  have h2: "ParseFile memOS (world \<lparr>world = brokenWorld, stdout = []\<rparr>) (Join memOS ''.'' ''version.go'')
       = Inl (Error ''string literal not terminated'')"
    by code_simp
  from getCurrentVersion_no_file [OF h1, of defaultFlags]
       getCurrentVersion_no_file [OF h2, of defaultFlags] h1 h2
  show ?thesis by simp
qed

theorem getCurrentVersion_no_constant_witness:
  "ParseFile memOS (world \<lparr>world = otherConstWorld, stdout = []\<rparr>) (Join memOS ''.'' ''version.go'')
     = Inr (File ''main'' [GenDecl tok_CONST
              [ValueSpec [''OTHER''] [BasicLit tok_STRING ([dquote] @ ''1.0.0'' @ [dquote])]]])
   \<and> \<not> declaresConst (flag_variable defaultFlags)
          [GenDecl tok_CONST
              [ValueSpec [''OTHER''] [BasicLit tok_STRING ([dquote] @ ''1.0.0'' @ [dquote])]]]
   \<and> fst (getCurrentVersion memOS defaultFlags ''.'' True \<lparr>world = otherConstWorld, stdout = []\<rparr>)
       = Inl (Error ''Could not find version constant [VERSION] in file [version.go]'')
   \<and> fst (getCurrentVersion memOS defaultFlags ''.'' False \<lparr>world = otherConstWorld, stdout = []\<rparr>)
       = Inl (Error ''Could not find version constant [VERSION] in file [version.go]'')"
proof -
  let ?f = "File ''main'' [GenDecl tok_CONST
              [ValueSpec [''OTHER''] [BasicLit tok_STRING ([dquote] @ ''1.0.0'' @ [dquote])]]]"
  have h1: "ParseFile memOS (world \<lparr>world = otherConstWorld, stdout = []\<rparr>)
              (Join memOS ''.'' ''version.go'') = Inr ?f"
    by code_simp
  have h2: "\<not> declaresConst (flag_variable defaultFlags) (Decls ?f)"
    by code_simp
  have j: "Join memOS ''.'' ''version.go'' = ''version.go''"
    by code_simp
  have e: "notFoundError (flag_variable defaultFlags) ''version.go''
             = Error ''Could not find version constant [VERSION] in file [version.go]''"
    by code_simp
  from getCurrentVersion_no_constant [OF h1 h2, of True]
       getCurrentVersion_no_constant [OF h1 h2, of False] h1 h2
  show ?thesis by (auto simp: j e)
qed

subsection \<open>Properties of the package namer\<close>

lemma parseFiles_spec:
  assumes "\<And>name. name \<in> set files \<Longrightarrow> ParseFile os w name = P name"
  shows "parseFiles os w files astFiles =
           (let sources = filter (\<lambda>name. HasSuffix name ''.go'') files;
                failing = filter (\<lambda>name. isl (P name)) sources
            in if failing \<noteq> [] then
                 Fatal (''parsing package: '' @ hd failing @ '': '' @ errorMessage (projl (P (hd failing))))
               else Returns (astFiles @ map (\<lambda>name. projr (P name)) sources))"
  using assms
proof (induction files arbitrary: astFiles)
  case Nil
  then show ?case by simp
next
  case (Cons name files)
  have tl: "\<And>n. n \<in> set files \<Longrightarrow> ParseFile os w n = P n"
    using Cons.prems by simp
  have hd: "ParseFile os w name = P name"
    using Cons.prems by simp
  show ?case
  proof (cases "HasSuffix name ''.go''")
    case False
    then show ?thesis
      using Cons.IH [OF tl] by simp
  next
    case True
    show ?thesis
    proof (cases "P name")
      case (Inl err)
      then show ?thesis
        using True hd by (cases err) (simp add: errorMessage_def)
    next
      case (Inr parsedFile)
      then show ?thesis
        using True hd Cons.IH [OF tl, of "astFiles @ [parsedFile]"]
        by (simp add: Let_def)
    qed
  qed
qed

text \<open>
  Claim C7, amended. For a directory whose entries, opened by their names, are the files
  of that directory (as in the working directory), \<open>parsePackage\<close> fails fatally when the
  directory cannot be listed, when any entry whose name ends in \<^verbatim>\<open>.go\<close> fails to parse
  (the first such failure is reported), and when no entry's name ends in \<^verbatim>\<open>.go\<close>;
  otherwise it returns the package name of the first entry whose name ends in \<^verbatim>\<open>.go\<close>.
\<close>

theorem parsePackage_amended:
  assumes "\<And>files name. ReadDir os w directory = Inr files \<Longrightarrow> name \<in> set files \<Longrightarrow>
             ParseFile os w name = ParseFile os w (Join os directory name)"
  shows "parsePackage os w directory = parsePackageSpec os w directory"
proof (cases "ReadDir os w directory")
  case (Inl err)
  then show ?thesis
    by (cases err) (simp add: parsePackage_def parsePackageSpec_def errorMessage_def)
next
  case (Inr files)
  have "\<And>name. name \<in> set files \<Longrightarrow> ParseFile os w name = ParseFile os w (Join os directory name)"
    using assms Inr by blast
  from parseFiles_spec [of files os w "\<lambda>name. ParseFile os w (Join os directory name)" "[]", OF this]
  show ?thesis
    using Inr
    by (auto simp: parsePackage_def parsePackageSpec_def Let_def hd_map
             split: list.splits)
qed

text \<open>
  Claim C7 as stated makes \<open>parsePackage\<close> return the package name of the first parseable
  source file, and fatal only when the directory cannot be listed, has no source file, or
  its first source file fails to parse. In a directory with \<^verbatim>\<open>a.go\<close>, which parses as
  package \<^verbatim>\<open>main\<close>, and \<^verbatim>\<open>b.go\<close>, which does not parse, the call is fatal.
\<close>

theorem parsePackage_later_file_fails:
  "ReadDir memOS brokenSiblingWorld ''.'' = Inr [''a.go'', ''b.go'']
   \<and> ParseFile memOS brokenSiblingWorld ''a.go'' = Inr (File ''main'' [])
   \<and> ParseFile memOS brokenSiblingWorld ''b.go'' = Inl (Error ''string literal not terminated'')
   \<and> parsePackage memOS brokenSiblingWorld ''.''
       = Fatal ''parsing package: b.go: string literal not terminated''"
  by code_simp

theorem parsePackage_amended_witness:
  "parsePackage memOS projectWorld ''.'' = Returns ''main''
   \<and> parsePackageSpec memOS projectWorld ''.'' = Returns ''main''
   \<and> parsePackage memOS brokenSiblingWorld ''.'' = parsePackageSpec memOS brokenSiblingWorld ''.''
   \<and> parsePackage memOS projectWorld ''nowhere'' = parsePackageSpec memOS projectWorld ''nowhere''
   \<and> parsePackageSpec memOS projectWorld ''nowhere''
       = Fatal ''Failed to read directory [nowhere]: open nowhere: no such file or directory''"
proof -
  have rd: "ReadDir memOS projectWorld ''.'' = Inr [''main.go'', ''version.go'']"
    by code_simp
  have p1: "ParseFile memOS projectWorld ''main.go''
              = ParseFile memOS projectWorld (Join memOS ''.'' ''main.go'')"
    by code_simp
  have p2: "ParseFile memOS projectWorld ''version.go''
              = ParseFile memOS projectWorld (Join memOS ''.'' ''version.go'')"
    by code_simp
  have h: "\<And>files name. ReadDir memOS projectWorld ''.'' = Inr files \<Longrightarrow> name \<in> set files \<Longrightarrow>
             ParseFile memOS projectWorld name = ParseFile memOS projectWorld (Join memOS ''.'' name)"
    using p1 p2 by (auto simp: rd)
  have rd2: "ReadDir memOS brokenSiblingWorld ''.'' = Inr [''a.go'', ''b.go'']"
    by code_simp
  have q1: "ParseFile memOS brokenSiblingWorld ''a.go''
              = ParseFile memOS brokenSiblingWorld (Join memOS ''.'' ''a.go'')"
    by code_simp
  have q2: "ParseFile memOS brokenSiblingWorld ''b.go''
              = ParseFile memOS brokenSiblingWorld (Join memOS ''.'' ''b.go'')"
    by code_simp
  have h2: "\<And>files name. ReadDir memOS brokenSiblingWorld ''.'' = Inr files \<Longrightarrow> name \<in> set files \<Longrightarrow>
             ParseFile memOS brokenSiblingWorld name
               = ParseFile memOS brokenSiblingWorld (Join memOS ''.'' name)"
    using q1 q2 by (auto simp: rd2)
  have rd3: "ReadDir memOS projectWorld ''nowhere''
               = Inl (Error ''open nowhere: no such file or directory'')"
    by code_simp
  have h3: "\<And>files name. ReadDir memOS projectWorld ''nowhere'' = Inr files \<Longrightarrow> name \<in> set files \<Longrightarrow>
             ParseFile memOS projectWorld name
               = ParseFile memOS projectWorld (Join memOS ''nowhere'' name)"
    by (simp add: rd3)
  have v: "parsePackage memOS projectWorld ''.'' = Returns ''main''"
    by code_simp
  have f: "parsePackage memOS projectWorld ''nowhere''
       = Fatal ''Failed to read directory [nowhere]: open nowhere: no such file or directory''"
    by code_simp
  from parsePackage_amended [OF h] parsePackage_amended [OF h2] parsePackage_amended [OF h3] v f
  show ?thesis by simp
qed

subsection \<open>Properties of the run\<close>






lemma run_single:
  "run os fl variable [p] mode lazyInit st = runPath os fl variable p mode lazyInit st"
  by (cases "runPath os fl variable p mode lazyInit st")
     (auto split: exec.splits option.splits)


subsection \<open>Rendering, then locating\<close>





























lemma isDigit_digit: "d < 10 \<Longrightarrow> isDigit (char_of (48 + d :: nat))"
  by (simp add: isDigit_def)

lemma digitsOf_digits: "list_all isDigit (digitsOf n)"
proof (induction n rule: digitsOf.induct)
  case (1 n)
  show ?case
  proof (cases "n < 10")
    case True
    then show ?thesis
      by (subst digitsOf.simps) (simp add: isDigit_digit)
  next
    case False
    then show ?thesis
      using 1 by (subst digitsOf.simps) (simp add: isDigit_digit)
  qed
qed

lemma isDigit_versionChar:
  "isDigit c \<Longrightarrow> isPlain c \<and> c \<noteq> dquote \<and> c \<noteq> CHR 0x5C"
  by (auto simp: isDigit_def isPlain_def dquote_def)

lemma isVersionText_append:
  "isVersionText (a @ b) \<longleftrightarrow> isVersionText a \<and> isVersionText b"
  by (simp add: isVersionText_def)

lemma isVersionText_digits: "list_all isDigit s \<Longrightarrow> isVersionText s"
  unfolding isVersionText_def list_all_iff using isDigit_versionChar by blast

lemma isVersionText_fmt_d: "isVersionText (fmt_d i)"
proof (cases "i < 0")
  case True
  have m: "isVersionText ''-''"
    by code_simp
  have "fmt_d i = ''-'' @ digitsOf (nat (- i))"
    using True by (simp add: fmt_d_def)
  then show ?thesis
    using m isVersionText_digits [OF digitsOf_digits] by (simp only: isVersionText_append simp_thms)
next
  case False
  then have "fmt_d i = digitsOf (nat i)"
    by (simp add: fmt_d_def)
  then show ?thesis
    using isVersionText_digits [OF digitsOf_digits] by simp
qed

text \<open>Every version the incrementer returns is a text that survives the round trip.\<close>

lemma getNextVersion_isVersionText:
  assumes "getNextVersion version mode = Inr nextDevVersion"
  shows "isVersionText nextDevVersion"
proof -
  have dot: "isVersionText ''.''"
    by code_simp
  from assms obtain a b c where "nextDevVersion = fmt_d a @ ''.'' @ fmt_d b @ ''.'' @ fmt_d c"
    by (auto simp: getNextVersion_def Let_def split: option.splits sum.splits if_splits)
  then show ?thesis
    using dot by (simp only: isVersionText_append isVersionText_fmt_d simp_thms)
qed

end
